theory Spec2Isabelle
  imports Main "HOL-Library.Word"
begin

section \<open>Work item link types (workitem/link/type.go)\<close>

subsection \<open>Identifiers, lifecycle metadata and errors\<close>

text \<open>
  A \<^verbatim>\<open>satoriuuid.UUID\<close> is an array of 16 bytes; \<^verbatim>\<open>satoriuuid.Nil\<close> is the array of
  zero bytes and \<^verbatim>\<open>satoriuuid.Equal\<close> compares the bytes, as \<^verbatim>\<open>==\<close> on the arrays does.
\<close>

type_synonym uuid = "128 word"

definition uuid_Nil :: uuid where
  "uuid_Nil = 0"

definition uuid_Equal :: "uuid \<Rightarrow> uuid \<Rightarrow> bool" where
  "uuid_Equal u1 u2 = (u1 = u2)"

text \<open>
  Modelled from the spec: \<^verbatim>\<open>gormsupport.Lifecycle\<close> and its \<^verbatim>\<open>Equal\<close> method are not part
  of the file. The spec describes lifecycle metadata as creation and update timestamps that
  are opaque values compared for equality; a timestamp is an instant, written as an integer.
\<close>

record Lifecycle =
  CreatedAt :: int
  UpdatedAt :: int

definition Lifecycle_Equal :: "Lifecycle \<Rightarrow> Lifecycle \<Rightarrow> bool" where
  "Lifecycle_Equal lc other =
     (if CreatedAt lc \<noteq> CreatedAt other then False
      else if UpdatedAt lc \<noteq> UpdatedAt other then False
      else True)"

text \<open>
  Modelled from the spec: the package \<^verbatim>\<open>errors\<close> is not part of the file. A BadParameter
  error identifies the offending parameter, carries the value that was given (an
  \<^verbatim>\<open>interface{}\<close>: here nil, a string or a UUID) and, where \<^verbatim>\<open>Expected\<close> was called, the
  expected value. \<^verbatim>\<open>errs.WithStack\<close> wraps an error with a stack trace; \<^verbatim>\<open>Cause\<close> unwraps.
\<close>

datatype param_value = VNil | VString string | VUUID uuid

record BadParameterError =
  parameter :: string
  actual :: param_value
  expected :: "string option"

definition NewBadParameterError :: "string \<Rightarrow> param_value \<Rightarrow> BadParameterError" where
  "NewBadParameterError param v = \<lparr>parameter = param, actual = v, expected = None\<rparr>"

definition Expected :: "BadParameterError \<Rightarrow> string \<Rightarrow> BadParameterError" where
  "Expected err e = err\<lparr>expected := Some e\<rparr>"

datatype error = BadParameter BadParameterError | WithStack error

fun Cause :: "error \<Rightarrow> BadParameterError" where
  "Cause (BadParameter b) = b"
| "Cause (WithStack e) = Cause e"

subsection \<open>Constants\<close>

definition TopologyNetwork :: string where
  "TopologyNetwork = ''network''"

definition TopologyDirectedNetwork :: string where
  "TopologyDirectedNetwork = ''directed_network''"

definition TopologyDependency :: string where
  "TopologyDependency = ''dependency''"

definition TopologyTree :: string where
  "TopologyTree = ''tree''"

subsection \<open>The model\<close>

text \<open>
  A \<^verbatim>\<open>*string\<close> is a \<open>string option\<close>: \<open>None\<close> is the nil pointer. The equations are the
  source's four tests, in its order.
\<close>

fun strPtrIsNilOrContentIsEqual :: "string option \<Rightarrow> string option \<Rightarrow> bool" where
  "strPtrIsNilOrContentIsEqual None (Some r) = False"
| "strPtrIsNilOrContentIsEqual (Some l) None = False"
| "strPtrIsNilOrContentIsEqual None None = True"
| "strPtrIsNilOrContentIsEqual (Some l) (Some r) = (l = r)"

text \<open>
  \<^verbatim>\<open>Version\<close> is a Go \<^verbatim>\<open>int\<close>; the file only copies and compares it.
\<close>

record WorkItemLinkType =
  Lifecycle :: Lifecycle
  ID :: uuid
  Name :: string
  Description :: "string option"
  Version :: int
  Topology :: string
  SourceTypeID :: uuid
  TargetTypeID :: uuid
  ForwardName :: string
  ReverseName :: string
  LinkCategoryID :: uuid
  SpaceID :: uuid

text \<open>
  The argument of \<^verbatim>\<open>Equal\<close> is a \<^verbatim>\<open>convert.Equaler\<close>: a \<^verbatim>\<open>WorkItemLinkType\<close> value, or a
  value of any other type that implements the interface (a \<^verbatim>\<open>*WorkItemLinkType\<close> among
  them), for which the type assertion fails.
\<close>

datatype Equaler = WorkItemLinkTypeValue WorkItemLinkType | OtherEqualer

fun Equal :: "WorkItemLinkType \<Rightarrow> Equaler \<Rightarrow> bool" where
  "Equal t OtherEqualer = False"
| "Equal t (WorkItemLinkTypeValue other) =
     (if \<not> Lifecycle_Equal (Lifecycle t) (Lifecycle other) then False
      else if \<not> uuid_Equal (ID t) (ID other) then False
      else if Name t \<noteq> Name other then False
      else if Version t \<noteq> Version other then False
      else if \<not> strPtrIsNilOrContentIsEqual (Description t) (Description other) then False
      else if Topology t \<noteq> Topology other then False
      else if \<not> uuid_Equal (SourceTypeID t) (SourceTypeID other) then False
      else if \<not> uuid_Equal (TargetTypeID t) (TargetTypeID other) then False
      else if ForwardName t \<noteq> ForwardName other then False
      else if ReverseName t \<noteq> ReverseName other then False
      else if \<not> uuid_Equal (LinkCategoryID t) (LinkCategoryID other) then False
      else if \<not> uuid_Equal (SpaceID t) (SpaceID other) then False
      else True)"

text \<open>An \<^verbatim>\<open>error\<close> result is an \<open>error option\<close>: \<open>None\<close> is nil.\<close>

definition CheckValidTopology :: "string \<Rightarrow> error option" where
  "CheckValidTopology t =
     (if t \<noteq> TopologyNetwork \<and> t \<noteq> TopologyDirectedNetwork
         \<and> t \<noteq> TopologyDependency \<and> t \<noteq> TopologyTree
      then Some (BadParameter (Expected (NewBadParameterError ''topolgy'' (VString t))
             (TopologyNetwork @ ''|'' @ TopologyDirectedNetwork @ ''|''
                @ TopologyDependency @ ''|'' @ TopologyTree)))
      else None)"

definition CheckValidForCreation :: "WorkItemLinkType \<Rightarrow> error option" where
  "CheckValidForCreation t =
     (if Name t = '''' then
        Some (BadParameter (NewBadParameterError ''name'' (VString (Name t))))
      else if uuid_Equal (SourceTypeID t) uuid_Nil then
        Some (BadParameter (NewBadParameterError ''source_type_name'' (VUUID (SourceTypeID t))))
      else if uuid_Equal (TargetTypeID t) uuid_Nil then
        Some (BadParameter (NewBadParameterError ''target_type_name'' (VUUID (TargetTypeID t))))
      else if ForwardName t = '''' then
        Some (BadParameter (NewBadParameterError ''forward_name'' (VString (ForwardName t))))
      else if ReverseName t = '''' then
        Some (BadParameter (NewBadParameterError ''reverse_name'' (VString (ReverseName t))))
      else (case CheckValidTopology (Topology t) of
        Some err \<Rightarrow> Some (WithStack err)
      | None \<Rightarrow>
          if LinkCategoryID t = uuid_Nil then
            Some (BadParameter (NewBadParameterError ''link_category_id'' (VUUID (LinkCategoryID t))))
          else if SpaceID t = uuid_Nil then
            Some (BadParameter (NewBadParameterError ''space_id'' (VUUID (SpaceID t))))
          else None))"

subsection \<open>The REST representation\<close>

text \<open>
  The types of the generated package \<^verbatim>\<open>app\<close> are not part of the file; their fields are
  read off the two converters. A pointer field is an \<open>option\<close>. The field names carry the
  name of their struct where two structs share a field name.
\<close>

record GenericLinks =
  Self :: "string option"

record RelationSpacesData =
  SpacesData_Type :: "string option"
  SpacesData_ID :: "uuid option"

record RelationSpaces =
  Spaces_Data :: "RelationSpacesData option"
  Spaces_Links :: "GenericLinks option"

record RelationWorkItemTypeData =
  TypeData_Type :: string
  TypeData_ID :: uuid

record RelationWorkItemType =
  Type_Data :: "RelationWorkItemTypeData option"

record RelationWorkItemLinkCategoryData =
  CategoryData_Type :: string
  CategoryData_ID :: uuid

record RelationWorkItemLinkCategory =
  Category_Data :: "RelationWorkItemLinkCategoryData option"

record WorkItemLinkTypeRelationships =
  LinkCategory :: "RelationWorkItemLinkCategory option"
  SourceType :: "RelationWorkItemType option"
  TargetType :: "RelationWorkItemType option"
  Space :: "RelationSpaces option"

record WorkItemLinkTypeAttributes =
  Attr_Name :: "string option"
  Attr_Description :: "string option"
  Attr_Version :: "int option"
  Attr_ForwardName :: "string option"
  Attr_ReverseName :: "string option"
  Attr_Topology :: "string option"

record WorkItemLinkTypeData =
  Data_Type :: string
  Data_ID :: "uuid option"
  Attributes :: "WorkItemLinkTypeAttributes option"
  Relationships :: "WorkItemLinkTypeRelationships option"

record WorkItemLinkTypeSingle =
  Data :: "WorkItemLinkTypeData option"

text \<open>
  What \<^verbatim>\<open>ConvertLinkTypeFromModel\<close> uses and the file does not declare: the endpoint names
  of the package, \<^verbatim>\<open>rest.AbsoluteURL\<close>, \<^verbatim>\<open>app.SpaceHref\<close> and the textual form of a UUID.
  They are parameters of the converter.
\<close>

record 'req collaborators =
  EndpointWorkItemLinkTypes :: string
  EndpointWorkItemLinkCategories :: string
  EndpointWorkItemTypes :: string
  AbsoluteURL :: "'req \<Rightarrow> string \<Rightarrow> string"
  SpaceHref :: "string \<Rightarrow> string"
  UUID_String :: "uuid \<Rightarrow> string"

definition ConvertLinkTypeFromModel ::
  "'req collaborators \<Rightarrow> 'req \<Rightarrow> WorkItemLinkType \<Rightarrow> WorkItemLinkTypeSingle" where
  "ConvertLinkTypeFromModel env request t =
     (let spaceType = ''spaces'';
          spaceSelfURL = AbsoluteURL env request (SpaceHref env (UUID_String env (SpaceID t)))
      in \<lparr>Data = Some
           \<lparr>Data_Type = EndpointWorkItemLinkTypes env,
            Data_ID = Some (ID t),
            Attributes = Some
              \<lparr>Attr_Name = Some (Name t),
               Attr_Description = Description t,
               Attr_Version = Some (Version t),
               Attr_ForwardName = Some (ForwardName t),
               Attr_ReverseName = Some (ReverseName t),
               Attr_Topology = Some (Topology t)\<rparr>,
            Relationships = Some
              \<lparr>LinkCategory = Some
                 \<lparr>Category_Data = Some
                    \<lparr>CategoryData_Type = EndpointWorkItemLinkCategories env,
                     CategoryData_ID = LinkCategoryID t\<rparr>\<rparr>,
               SourceType = Some
                 \<lparr>Type_Data = Some
                    \<lparr>TypeData_Type = EndpointWorkItemTypes env,
                     TypeData_ID = SourceTypeID t\<rparr>\<rparr>,
               TargetType = Some
                 \<lparr>Type_Data = Some
                    \<lparr>TypeData_Type = EndpointWorkItemTypes env,
                     TypeData_ID = TargetTypeID t\<rparr>\<rparr>,
               Space = Some
                 \<lparr>Spaces_Data = Some
                    \<lparr>SpacesData_Type = Some spaceType,
                     SpacesData_ID = Some (SpaceID t)\<rparr>,
                  Spaces_Links = Some \<lparr>Self = Some spaceSelfURL\<rparr>\<rparr>\<rparr>\<rparr>\<rparr>)"

subsection \<open>Merging an update into a stored record\<close>

text \<open>
  \<^verbatim>\<open>ConvertLinkTypeToModel\<close> writes through the pointer \<^verbatim>\<open>out\<close> and may leave in the
  middle, so its result is the way the call ends together with the record as it stands
  then. A call ends by returning an \<^verbatim>\<open>error\<close> (\<open>Return None\<close> is \<^verbatim>\<open>return nil\<close>) or by a
  run-time panic (line 284 dereferences \<^verbatim>\<open>rel.Space.Data.ID\<close> without a nil check).
\<close>

datatype 'a exec = Return 'a | Panic

type_synonym conversion = "error option exec \<times> WorkItemLinkType"

text \<open>
  The statements of the function body, one definition per \<^verbatim>\<open>if\<close> block. A block that
  yields \<open>Return None\<close> has not left the function: \<open>seq\<close> goes on with the next block,
  and hands on every other result as it is.
\<close>

definition seq :: "conversion \<Rightarrow> (WorkItemLinkType \<Rightarrow> conversion) \<Rightarrow> conversion" where
  "seq r k = (case r of (Return None, out) \<Rightarrow> k out | _ \<Rightarrow> r)"

definition set_ID :: "WorkItemLinkTypeData \<Rightarrow> WorkItemLinkType \<Rightarrow> conversion" where
  "set_ID d out =
     (case Data_ID d of
        Some i \<Rightarrow> (Return None, out\<lparr>ID := i\<rparr>)
      | None \<Rightarrow> (Return None, out))"

definition set_Name :: "WorkItemLinkTypeAttributes \<Rightarrow> WorkItemLinkType \<Rightarrow> conversion" where
  "set_Name attrs out =
     (case Attr_Name attrs of
        Some n \<Rightarrow>
          if n = '''' then
            (Return (Some (BadParameter
               (NewBadParameterError ''data.attributes.name'' (VString n)))), out)
          else (Return None, out\<lparr>Name := n\<rparr>)
      | None \<Rightarrow> (Return None, out))"

definition set_Description :: "WorkItemLinkTypeAttributes \<Rightarrow> WorkItemLinkType \<Rightarrow> conversion" where
  "set_Description attrs out =
     (case Attr_Description attrs of
        Some d \<Rightarrow> (Return None, out\<lparr>Description := Some d\<rparr>)
      | None \<Rightarrow> (Return None, out))"

definition set_Version :: "WorkItemLinkTypeAttributes \<Rightarrow> WorkItemLinkType \<Rightarrow> conversion" where
  "set_Version attrs out =
     (case Attr_Version attrs of
        Some v \<Rightarrow> (Return None, out\<lparr>Version := v\<rparr>)
      | None \<Rightarrow> (Return None, out))"

definition set_ForwardName :: "WorkItemLinkTypeAttributes \<Rightarrow> WorkItemLinkType \<Rightarrow> conversion" where
  "set_ForwardName attrs out =
     (case Attr_ForwardName attrs of
        Some n \<Rightarrow>
          if n = '''' then
            (Return (Some (BadParameter
               (NewBadParameterError ''data.attributes.forward_name'' (VString n)))), out)
          else (Return None, out\<lparr>ForwardName := n\<rparr>)
      | None \<Rightarrow> (Return None, out))"

definition set_ReverseName :: "WorkItemLinkTypeAttributes \<Rightarrow> WorkItemLinkType \<Rightarrow> conversion" where
  "set_ReverseName attrs out =
     (case Attr_ReverseName attrs of
        Some n \<Rightarrow>
          if n = '''' then
            (Return (Some (BadParameter
               (NewBadParameterError ''data.attributes.reverse_name'' (VString n)))), out)
          else (Return None, out\<lparr>ReverseName := n\<rparr>)
      | None \<Rightarrow> (Return None, out))"

definition set_Topology :: "WorkItemLinkTypeAttributes \<Rightarrow> WorkItemLinkType \<Rightarrow> conversion" where
  "set_Topology attrs out =
     (case Attr_Topology attrs of
        Some t \<Rightarrow>
          (case CheckValidTopology t of
             Some err \<Rightarrow> (Return (Some (WithStack err)), out)
           | None \<Rightarrow> (Return None, out\<lparr>Topology := t\<rparr>))
      | None \<Rightarrow> (Return None, out))"

definition set_LinkCategoryID ::
  "WorkItemLinkTypeRelationships \<Rightarrow> WorkItemLinkType \<Rightarrow> conversion" where
  "set_LinkCategoryID rel out =
     (case LinkCategory rel of
        Some c \<Rightarrow>
          (case Category_Data c of
             Some cd \<Rightarrow> (Return None, out\<lparr>LinkCategoryID := CategoryData_ID cd\<rparr>)
           | None \<Rightarrow> (Return None, out))
      | None \<Rightarrow> (Return None, out))"

definition set_SourceTypeID ::
  "WorkItemLinkTypeRelationships \<Rightarrow> WorkItemLinkType \<Rightarrow> conversion" where
  "set_SourceTypeID rel out =
     (case SourceType rel of
        Some s \<Rightarrow>
          (case Type_Data s of
             Some sd \<Rightarrow> (Return None, out\<lparr>SourceTypeID := TypeData_ID sd\<rparr>)
           | None \<Rightarrow> (Return None, out))
      | None \<Rightarrow> (Return None, out))"

definition set_TargetTypeID ::
  "WorkItemLinkTypeRelationships \<Rightarrow> WorkItemLinkType \<Rightarrow> conversion" where
  "set_TargetTypeID rel out =
     (case TargetType rel of
        Some s \<Rightarrow>
          (case Type_Data s of
             Some sd \<Rightarrow> (Return None, out\<lparr>TargetTypeID := TypeData_ID sd\<rparr>)
           | None \<Rightarrow> (Return None, out))
      | None \<Rightarrow> (Return None, out))"

definition set_SpaceID ::
  "WorkItemLinkTypeRelationships \<Rightarrow> WorkItemLinkType \<Rightarrow> conversion" where
  "set_SpaceID rel out =
     (case Space rel of
        Some s \<Rightarrow>
          (case Spaces_Data s of
             Some sd \<Rightarrow>
               (case SpacesData_ID sd of
                  Some i \<Rightarrow> (Return None, out\<lparr>SpaceID := i\<rparr>)
                | None \<Rightarrow> (Panic, out))
           | None \<Rightarrow> (Return None, out))
      | None \<Rightarrow> (Return None, out))"

text \<open>
  After the three nil checks \<^verbatim>\<open>attrs\<close> and \<^verbatim>\<open>rel\<close> are not nil, so the tests
  \<^verbatim>\<open>attrs != nil\<close> and \<^verbatim>\<open>rel != nil\<close> of the later blocks hold.
\<close>

definition ConvertLinkTypeToModel ::
  "WorkItemLinkTypeSingle \<Rightarrow> WorkItemLinkType \<Rightarrow> conversion" where
  "ConvertLinkTypeToModel inp out =
     (case Data inp of
        None \<Rightarrow>
          (Return (Some (BadParameter
             (Expected (NewBadParameterError ''data'' VNil) ''not <nil>''))), out)
      | Some d \<Rightarrow>
     (case Attributes d of
        None \<Rightarrow>
          (Return (Some (BadParameter
             (Expected (NewBadParameterError ''data.attributes'' VNil) ''not <nil>''))), out)
      | Some attrs \<Rightarrow>
     (case Relationships d of
        None \<Rightarrow>
          (Return (Some (BadParameter
             (Expected (NewBadParameterError ''data.relationships'' VNil) ''not <nil>''))), out)
      | Some rel \<Rightarrow>
          seq (set_ID d out) (\<lambda>out.
          seq (set_Name attrs out) (\<lambda>out.
          seq (set_Description attrs out) (\<lambda>out.
          seq (set_Version attrs out) (\<lambda>out.
          seq (set_ForwardName attrs out) (\<lambda>out.
          seq (set_ReverseName attrs out) (\<lambda>out.
          seq (set_Topology attrs out) (\<lambda>out.
          seq (set_LinkCategoryID rel out) (\<lambda>out.
          seq (set_SourceTypeID rel out) (\<lambda>out.
          seq (set_TargetTypeID rel out) (\<lambda>out.
          seq (set_SpaceID rel out) (\<lambda>out.
          (Return None, out)))))))))))))))"

subsection \<open>The relationship identifiers an update presents\<close>

text \<open>
  For the statements below: the identifier that the update gives for a relationship, if
  the relationship and its \<^verbatim>\<open>Data\<close> are both there (the tests of lines 274 to 283). The
  identifier of a space is itself a pointer; where the space data is there and its \<^verbatim>\<open>ID\<close> is
  nil, \<open>given_SpaceID\<close> is \<open>None\<close> and \<open>space_without_ID\<close> holds.
\<close>

definition given_LinkCategoryID :: "WorkItemLinkTypeRelationships \<Rightarrow> uuid option" where
  "given_LinkCategoryID rel =
     (case LinkCategory rel of
        Some c \<Rightarrow> (case Category_Data c of Some cd \<Rightarrow> Some (CategoryData_ID cd) | None \<Rightarrow> None)
      | None \<Rightarrow> None)"

definition given_SourceTypeID :: "WorkItemLinkTypeRelationships \<Rightarrow> uuid option" where
  "given_SourceTypeID rel =
     (case SourceType rel of
        Some s \<Rightarrow> (case Type_Data s of Some sd \<Rightarrow> Some (TypeData_ID sd) | None \<Rightarrow> None)
      | None \<Rightarrow> None)"

definition given_TargetTypeID :: "WorkItemLinkTypeRelationships \<Rightarrow> uuid option" where
  "given_TargetTypeID rel =
     (case TargetType rel of
        Some s \<Rightarrow> (case Type_Data s of Some sd \<Rightarrow> Some (TypeData_ID sd) | None \<Rightarrow> None)
      | None \<Rightarrow> None)"

definition given_SpaceID :: "WorkItemLinkTypeRelationships \<Rightarrow> uuid option" where
  "given_SpaceID rel =
     (case Space rel of
        Some s \<Rightarrow> (case Spaces_Data s of Some sd \<Rightarrow> SpacesData_ID sd | None \<Rightarrow> None)
      | None \<Rightarrow> None)"

definition space_without_ID :: "WorkItemLinkTypeRelationships \<Rightarrow> bool" where
  "space_without_ID rel =
     (case Space rel of
        Some s \<Rightarrow> (case Spaces_Data s of Some sd \<Rightarrow> SpacesData_ID sd = None | None \<Rightarrow> False)
      | None \<Rightarrow> False)"

text \<open>
  The value of a field after a merge: the given one if there is one, the old one otherwise.
\<close>

definition overwrite :: "'a option \<Rightarrow> 'a \<Rightarrow> 'a" where
  "overwrite given old = (case given of Some v \<Rightarrow> v | None \<Rightarrow> old)"

subsection \<open>Example values\<close>

text \<open>
  A link type that passes \<^verbatim>\<open>CheckValidForCreation\<close>, an update that presents nothing, and
  the collaborators of \<^verbatim>\<open>ConvertLinkTypeFromModel\<close> at fixed values; the examples below
  are built from them.
\<close>

definition example_linktype :: WorkItemLinkType where
  "example_linktype =
     \<lparr>Lifecycle = \<lparr>CreatedAt = 10, UpdatedAt = 20\<rparr>,
      ID = 1,
      Name = ''Bug blocker'',
      Description = None,
      Version = 0,
      Topology = ''network'',
      SourceTypeID = 2,
      TargetTypeID = 3,
      ForwardName = ''blocks'',
      ReverseName = ''blocked by'',
      LinkCategoryID = 4,
      SpaceID = 5\<rparr>"

definition no_attributes :: WorkItemLinkTypeAttributes where
  "no_attributes =
     \<lparr>Attr_Name = None, Attr_Description = None, Attr_Version = None,
      Attr_ForwardName = None, Attr_ReverseName = None, Attr_Topology = None\<rparr>"

definition no_relationships :: WorkItemLinkTypeRelationships where
  "no_relationships =
     \<lparr>LinkCategory = None, SourceType = None, TargetType = None, Space = None\<rparr>"

definition update_of ::
  "uuid option \<Rightarrow> WorkItemLinkTypeAttributes option
     \<Rightarrow> WorkItemLinkTypeRelationships option \<Rightarrow> WorkItemLinkTypeSingle" where
  "update_of i attrs rel =
     \<lparr>Data = Some \<lparr>Data_Type = ''workitemlinktypes'', Data_ID = i,
                    Attributes = attrs, Relationships = rel\<rparr>\<rparr>"

definition example_collaborators :: "unit collaborators" where
  "example_collaborators =
     \<lparr>EndpointWorkItemLinkTypes = ''workitemlinktypes'',
      EndpointWorkItemLinkCategories = ''workitemlinkcategories'',
      EndpointWorkItemTypes = ''workitemtypes'',
      AbsoluteURL = (\<lambda>request path. ''http://localhost'' @ path),
      SpaceHref = (\<lambda>space. ''/api/spaces/'' @ space),
      UUID_String = (\<lambda>u. ''00000000-0000-0000-0000-000000000005'')\<rparr>"

section \<open>Properties\<close>

subsection \<open>The blocks of the merge\<close>

text \<open>
  When a block lets the function go on, and when it leaves with an error, with the record
  it hands on; then the same for the whole function: \<open>ConvertLinkTypeToModel_ok\<close> for the
  runs that return nil and \<open>ConvertLinkTypeToModel_err\<close> for the runs that return an error
  after the three nil checks.
\<close>

lemma seq_ok: "seq r k = (Return None, s') \<longleftrightarrow> (\<exists>s. r = (Return None, s) \<and> k s = (Return None, s'))"
  by (auto simp: seq_def split: prod.splits exec.splits option.splits)

lemma seq_err: "seq r k = (Return (Some e), s') \<longleftrightarrow>
   r = (Return (Some e), s') \<or> (\<exists>s. r = (Return None, s) \<and> k s = (Return (Some e), s'))"
  by (auto simp: seq_def split: prod.splits exec.splits option.splits)

lemma set_ID_ok: "set_ID d s = (Return None, s') \<longleftrightarrow>
    s' = s\<lparr>ID := (overwrite (Data_ID d) (ID s))\<rparr>"
  by (auto simp: overwrite_def set_ID_def split: option.splits)

lemma set_Name_ok: "set_Name a s = (Return None, s') \<longleftrightarrow>
    Attr_Name a \<noteq> Some [] \<and> s' = s\<lparr>Name := (overwrite (Attr_Name a) (Name s))\<rparr>"
  by (auto simp: overwrite_def set_Name_def split: option.splits)

lemma set_Description_ok: "set_Description a s = (Return None, s') \<longleftrightarrow>
    s' = s\<lparr>Description := (overwrite (map_option Some (Attr_Description a)) (Description s))\<rparr>"
  by (auto simp: overwrite_def set_Description_def split: option.splits)

lemma set_Version_ok: "set_Version a s = (Return None, s') \<longleftrightarrow>
    s' = s\<lparr>Version := (overwrite (Attr_Version a) (Version s))\<rparr>"
  by (auto simp: overwrite_def set_Version_def split: option.splits)

lemma set_ForwardName_ok: "set_ForwardName a s = (Return None, s') \<longleftrightarrow>
    Attr_ForwardName a \<noteq> Some [] \<and> s' = s\<lparr>ForwardName := (overwrite (Attr_ForwardName a) (ForwardName s))\<rparr>"
  by (auto simp: overwrite_def set_ForwardName_def split: option.splits)

lemma set_ReverseName_ok: "set_ReverseName a s = (Return None, s') \<longleftrightarrow>
    Attr_ReverseName a \<noteq> Some [] \<and> s' = s\<lparr>ReverseName := (overwrite (Attr_ReverseName a) (ReverseName s))\<rparr>"
  by (auto simp: overwrite_def set_ReverseName_def split: option.splits)

lemma set_Topology_ok: "set_Topology a s = (Return None, s') \<longleftrightarrow>
    (case Attr_Topology a of Some t \<Rightarrow> CheckValidTopology t = None | None \<Rightarrow> True)
    \<and> s' = s\<lparr>Topology := (overwrite (Attr_Topology a) (Topology s))\<rparr>"
  by (auto simp: overwrite_def set_Topology_def split: option.splits)

lemma set_LinkCategoryID_ok: "set_LinkCategoryID r s = (Return None, s') \<longleftrightarrow>
    s' = s\<lparr>LinkCategoryID := (overwrite (given_LinkCategoryID r) (LinkCategoryID s))\<rparr>"
  by (auto simp: overwrite_def set_LinkCategoryID_def given_LinkCategoryID_def split: option.splits)

lemma set_SourceTypeID_ok: "set_SourceTypeID r s = (Return None, s') \<longleftrightarrow>
    s' = s\<lparr>SourceTypeID := (overwrite (given_SourceTypeID r) (SourceTypeID s))\<rparr>"
  by (auto simp: overwrite_def set_SourceTypeID_def given_SourceTypeID_def split: option.splits)

lemma set_TargetTypeID_ok: "set_TargetTypeID r s = (Return None, s') \<longleftrightarrow>
    s' = s\<lparr>TargetTypeID := (overwrite (given_TargetTypeID r) (TargetTypeID s))\<rparr>"
  by (auto simp: overwrite_def set_TargetTypeID_def given_TargetTypeID_def split: option.splits)

lemma set_SpaceID_ok: "set_SpaceID r s = (Return None, s') \<longleftrightarrow>
    \<not> space_without_ID r \<and> s' = s\<lparr>SpaceID := (overwrite (given_SpaceID r) (SpaceID s))\<rparr>"
  by (auto simp: overwrite_def set_SpaceID_def given_SpaceID_def space_without_ID_def split: option.splits)

lemmas block_ok = set_ID_ok set_Name_ok set_Description_ok set_Version_ok set_ForwardName_ok
  set_ReverseName_ok set_Topology_ok set_LinkCategoryID_ok set_SourceTypeID_ok
  set_TargetTypeID_ok set_SpaceID_ok

lemma ConvertLinkTypeToModel_ok:
  "ConvertLinkTypeToModel inp out = (Return None, out') \<longleftrightarrow>
    (\<exists>d a r. Data inp = Some d \<and> Attributes d = Some a \<and> Relationships d = Some r
      \<and> Attr_Name a \<noteq> Some [] \<and> Attr_ForwardName a \<noteq> Some [] \<and> Attr_ReverseName a \<noteq> Some []
      \<and> (case Attr_Topology a of Some t \<Rightarrow> CheckValidTopology t = None | None \<Rightarrow> True)
      \<and> \<not> space_without_ID r
      \<and> out' = out\<lparr>ID := (overwrite (Data_ID d) (ID out)),
     Name := (overwrite (Attr_Name a) (Name out)),
     Description := (overwrite (map_option Some (Attr_Description a)) (Description out)),
     Version := (overwrite (Attr_Version a) (Version out)),
     ForwardName := (overwrite (Attr_ForwardName a) (ForwardName out)),
     ReverseName := (overwrite (Attr_ReverseName a) (ReverseName out)),
     Topology := (overwrite (Attr_Topology a) (Topology out)),
     LinkCategoryID := (overwrite (given_LinkCategoryID r) (LinkCategoryID out)),
     SourceTypeID := (overwrite (given_SourceTypeID r) (SourceTypeID out)),
     TargetTypeID := (overwrite (given_TargetTypeID r) (TargetTypeID out)),
     SpaceID := (overwrite (given_SpaceID r) (SpaceID out))\<rparr>)"
proof (cases "Data inp")
  case None
  then show ?thesis by (simp add: ConvertLinkTypeToModel_def)
next
  case d: (Some d)
  show ?thesis
  proof (cases "Attributes d")
    case None
    with d show ?thesis by (simp add: ConvertLinkTypeToModel_def)
  next
    case a: (Some a)
    show ?thesis
    proof (cases "Relationships d")
      case None
      with d a show ?thesis by (simp add: ConvertLinkTypeToModel_def)
    next
      case r: (Some r)
      show ?thesis
        using d a r
        by (auto simp: ConvertLinkTypeToModel_def seq_ok block_ok)
    qed
  qed
qed

lemma seq_panic: "seq r k = (Panic, s') \<longleftrightarrow>
   r = (Panic, s') \<or> (\<exists>s. r = (Return None, s) \<and> k s = (Panic, s'))"
  by (auto simp: seq_def split: prod.splits exec.splits option.splits)

lemma set_ID_err: "set_ID d s \<noteq> (Return (Some e), s')"
  by (auto simp: set_ID_def split: option.splits)

lemma set_Name_err: "set_Name a s = (Return (Some e), s') \<longleftrightarrow>
    Attr_Name a = Some [] \<and> s' = s
    \<and> e = BadParameter (NewBadParameterError ''data.attributes.name'' (VString []))"
  by (auto simp: set_Name_def split: option.splits)

lemma set_Description_err: "set_Description a s \<noteq> (Return (Some e), s')"
  by (auto simp: set_Description_def split: option.splits)

lemma set_Version_err: "set_Version a s \<noteq> (Return (Some e), s')"
  by (auto simp: set_Version_def split: option.splits)

lemma set_ForwardName_err: "set_ForwardName a s = (Return (Some e), s') \<longleftrightarrow>
    Attr_ForwardName a = Some [] \<and> s' = s
    \<and> e = BadParameter (NewBadParameterError ''data.attributes.forward_name'' (VString []))"
  by (auto simp: set_ForwardName_def split: option.splits)

lemma set_ReverseName_err: "set_ReverseName a s = (Return (Some e), s') \<longleftrightarrow>
    Attr_ReverseName a = Some [] \<and> s' = s
    \<and> e = BadParameter (NewBadParameterError ''data.attributes.reverse_name'' (VString []))"
  by (auto simp: set_ReverseName_def split: option.splits)

lemma set_Topology_err: "set_Topology a s = (Return (Some e), s') \<longleftrightarrow>
    (\<exists>t err. Attr_Topology a = Some t \<and> CheckValidTopology t = Some err \<and> e = WithStack err)
    \<and> s' = s"
  by (auto simp: set_Topology_def split: option.splits)

lemma set_LinkCategoryID_err: "set_LinkCategoryID r s \<noteq> (Return (Some e), s')"
  by (auto simp: set_LinkCategoryID_def split: option.splits)

lemma set_SourceTypeID_err: "set_SourceTypeID r s \<noteq> (Return (Some e), s')"
  by (auto simp: set_SourceTypeID_def split: option.splits)

lemma set_TargetTypeID_err: "set_TargetTypeID r s \<noteq> (Return (Some e), s')"
  by (auto simp: set_TargetTypeID_def split: option.splits)

lemma set_SpaceID_err: "set_SpaceID r s \<noteq> (Return (Some e), s')"
  by (auto simp: set_SpaceID_def split: option.splits)

lemmas block_err = set_ID_err set_Name_err set_Description_err set_Version_err
  set_ForwardName_err set_ReverseName_err set_Topology_err set_LinkCategoryID_err
  set_SourceTypeID_err set_TargetTypeID_err set_SpaceID_err

lemma ConvertLinkTypeToModel_err:
  assumes "Data inp = Some d" "Attributes d = Some a" "Relationships d = Some r"
  shows "ConvertLinkTypeToModel inp out = (Return (Some e), out') \<longleftrightarrow>
     (Attr_Name a = Some [] \<and>
        e = BadParameter (NewBadParameterError ''data.attributes.name'' (VString [])) \<and>
        out' = out\<lparr>ID := overwrite (Data_ID d) (ID out)\<rparr>)
   \<or> (Attr_Name a \<noteq> Some [] \<and> Attr_ForwardName a = Some [] \<and>
        e = BadParameter (NewBadParameterError ''data.attributes.forward_name'' (VString [])) \<and>
        out' = out\<lparr>ID := overwrite (Data_ID d) (ID out),
                     Name := overwrite (Attr_Name a) (Name out),
                     Description := overwrite (map_option Some (Attr_Description a)) (Description out),
                     Version := overwrite (Attr_Version a) (Version out)\<rparr>)
   \<or> (Attr_Name a \<noteq> Some [] \<and> Attr_ForwardName a \<noteq> Some [] \<and> Attr_ReverseName a = Some [] \<and>
        e = BadParameter (NewBadParameterError ''data.attributes.reverse_name'' (VString [])) \<and>
        out' = out\<lparr>ID := overwrite (Data_ID d) (ID out),
                     Name := overwrite (Attr_Name a) (Name out),
                     Description := overwrite (map_option Some (Attr_Description a)) (Description out),
                     Version := overwrite (Attr_Version a) (Version out),
                     ForwardName := overwrite (Attr_ForwardName a) (ForwardName out)\<rparr>)
   \<or> (Attr_Name a \<noteq> Some [] \<and> Attr_ForwardName a \<noteq> Some [] \<and> Attr_ReverseName a \<noteq> Some [] \<and>
        (\<exists>t err. Attr_Topology a = Some t \<and> CheckValidTopology t = Some err \<and> e = WithStack err) \<and>
        out' = out\<lparr>ID := overwrite (Data_ID d) (ID out),
                     Name := overwrite (Attr_Name a) (Name out),
                     Description := overwrite (map_option Some (Attr_Description a)) (Description out),
                     Version := overwrite (Attr_Version a) (Version out),
                     ForwardName := overwrite (Attr_ForwardName a) (ForwardName out),
                     ReverseName := overwrite (Attr_ReverseName a) (ReverseName out)\<rparr>)"
  using assms
  by (simp add: ConvertLinkTypeToModel_def seq_err seq_ok block_ok block_err) blast

subsection \<open>Equality\<close>

lemma strPtrIsNilOrContentIsEqual_eq: "strPtrIsNilOrContentIsEqual l r = (l = r)"
  by (cases l; cases r) simp_all

lemma Lifecycle_Equal_eq: "Lifecycle_Equal a b = (a = b)"
  by (cases a; cases b) (simp add: Lifecycle_Equal_def)

lemma Equal_eq: "Equal t (WorkItemLinkTypeValue u) = (t = u)"
  by (cases t; cases u)
    (auto simp: Lifecycle_Equal_eq uuid_Equal_def strPtrIsNilOrContentIsEqual_eq)

text \<open>
  C7. Two optional strings compare equal exactly when both are unset, or both are set and
  their contents are the same; one set and one unset compare unequal. The equality of link
  types compares the descriptions of two records with this function: on records that
  differ at most in the description it returns what the function returns.
\<close>

theorem strPtrIsNilOrContentIsEqual_both_unset_or_same_content:
  "strPtrIsNilOrContentIsEqual l r =
     ((l = None \<and> r = None) \<or> (\<exists>a b. l = Some a \<and> r = Some b \<and> a = b))
   \<and> \<not> strPtrIsNilOrContentIsEqual (Some a) None
   \<and> \<not> strPtrIsNilOrContentIsEqual None (Some b)
   \<and> Equal t (WorkItemLinkTypeValue (t\<lparr>Description := d\<rparr>))
       = strPtrIsNilOrContentIsEqual (Description t) d"
proof -
  have "Equal t (WorkItemLinkTypeValue (t\<lparr>Description := d\<rparr>))
          = strPtrIsNilOrContentIsEqual (Description t) d"
    by (cases t) (simp add: Lifecycle_Equal_eq uuid_Equal_def strPtrIsNilOrContentIsEqual_eq)
  moreover have "strPtrIsNilOrContentIsEqual l r =
     ((l = None \<and> r = None) \<or> (\<exists>a b. l = Some a \<and> r = Some b \<and> a = b))"
    by (cases l; cases r) simp_all
  ultimately show ?thesis by simp
qed

theorem strPtrIsNilOrContentIsEqual_examples:
  "strPtrIsNilOrContentIsEqual None None
   \<and> strPtrIsNilOrContentIsEqual (Some ''blocks'') (Some ''blocks'')
   \<and> \<not> strPtrIsNilOrContentIsEqual (Some ''blocks'') (Some ''Blocks'')
   \<and> \<not> strPtrIsNilOrContentIsEqual (Some '''') None
   \<and> \<not> Equal example_linktype
         (WorkItemLinkTypeValue (example_linktype\<lparr>Description := Some ''''\<rparr>))"
  using strPtrIsNilOrContentIsEqual_both_unset_or_same_content
          [of None None "''''" "''''" example_linktype "Some ''''"]
        strPtrIsNilOrContentIsEqual_both_unset_or_same_content
          [of "Some ''blocks''" "Some ''blocks''" "''''" "''''" example_linktype "Some ''''"]
        strPtrIsNilOrContentIsEqual_both_unset_or_same_content
          [of "Some ''blocks''" "Some ''Blocks''" "''''" "''''" example_linktype "Some ''''"]
  by (simp add: example_linktype_def del: Equal.simps)

text \<open>
  C6. \<^verbatim>\<open>Equal\<close> on two link type values is reflexive and symmetric, and it returns false
  as soon as the two records differ in one attribute: the lifecycle metadata, the ID, the
  name, the description, the version, the topology, the source or target type id, the
  forward or reverse name, the link category id or the space id. Two records with
  different IDs are never equal.
\<close>

theorem Equal_reflexive_symmetric_sensitive:
  "Equal t (WorkItemLinkTypeValue t)
   \<and> Equal t (WorkItemLinkTypeValue u) = Equal u (WorkItemLinkTypeValue t)
   \<and> (Lifecycle t \<noteq> Lifecycle u \<longrightarrow> \<not> Equal t (WorkItemLinkTypeValue u))
   \<and> (ID t \<noteq> ID u \<longrightarrow> \<not> Equal t (WorkItemLinkTypeValue u))
   \<and> (Name t \<noteq> Name u \<longrightarrow> \<not> Equal t (WorkItemLinkTypeValue u))
   \<and> (Description t \<noteq> Description u \<longrightarrow> \<not> Equal t (WorkItemLinkTypeValue u))
   \<and> (Version t \<noteq> Version u \<longrightarrow> \<not> Equal t (WorkItemLinkTypeValue u))
   \<and> (Topology t \<noteq> Topology u \<longrightarrow> \<not> Equal t (WorkItemLinkTypeValue u))
   \<and> (SourceTypeID t \<noteq> SourceTypeID u \<longrightarrow> \<not> Equal t (WorkItemLinkTypeValue u))
   \<and> (TargetTypeID t \<noteq> TargetTypeID u \<longrightarrow> \<not> Equal t (WorkItemLinkTypeValue u))
   \<and> (ForwardName t \<noteq> ForwardName u \<longrightarrow> \<not> Equal t (WorkItemLinkTypeValue u))
   \<and> (ReverseName t \<noteq> ReverseName u \<longrightarrow> \<not> Equal t (WorkItemLinkTypeValue u))
   \<and> (LinkCategoryID t \<noteq> LinkCategoryID u \<longrightarrow> \<not> Equal t (WorkItemLinkTypeValue u))
   \<and> (SpaceID t \<noteq> SpaceID u \<longrightarrow> \<not> Equal t (WorkItemLinkTypeValue u))"
proof -
  have refl: "Equal t (WorkItemLinkTypeValue t)"
    by (simp only: Equal_eq)
  have sym: "Equal t (WorkItemLinkTypeValue u) = Equal u (WorkItemLinkTypeValue t)"
    unfolding Equal_eq by (rule eq_commute)
  have sens: "\<not> Equal t (WorkItemLinkTypeValue u)" if "f t \<noteq> f u"
    for f :: "WorkItemLinkType \<Rightarrow> 'a"
    unfolding Equal_eq using that by blast
  show ?thesis
    using refl sym sens [of Lifecycle] sens [of ID] sens [of Name] sens [of Description]
      sens [of Version] sens [of Topology] sens [of SourceTypeID] sens [of TargetTypeID]
      sens [of ForwardName] sens [of ReverseName] sens [of LinkCategoryID] sens [of SpaceID]
    by simp
qed

theorem Equal_examples:
  "Equal example_linktype (WorkItemLinkTypeValue example_linktype)
   \<and> \<not> Equal example_linktype (WorkItemLinkTypeValue (example_linktype\<lparr>ID := 6\<rparr>))
   \<and> \<not> Equal (example_linktype\<lparr>ID := 6\<rparr>) (WorkItemLinkTypeValue example_linktype)"
proof -
  have "ID example_linktype \<noteq> ID (example_linktype\<lparr>ID := 6\<rparr>)"
    by (simp add: example_linktype_def)
  then show ?thesis
    using Equal_reflexive_symmetric_sensitive [of example_linktype "example_linktype\<lparr>ID := 6\<rparr>"]
    by blast
qed

subsection \<open>Running the functions on the examples\<close>

lemmas example_defs = example_linktype_def no_attributes_def no_relationships_def update_of_def

lemmas run_defs = ConvertLinkTypeToModel_def seq_def set_ID_def set_Name_def
  set_Description_def set_Version_def set_ForwardName_def set_ReverseName_def set_Topology_def
  set_LinkCategoryID_def set_SourceTypeID_def set_TargetTypeID_def set_SpaceID_def
  CheckValidTopology_def TopologyNetwork_def TopologyDirectedNetwork_def TopologyDependency_def
  TopologyTree_def NewBadParameterError_def Expected_def

subsection \<open>Absent parts of an update\<close>

text \<open>
  C9. When the update has no \<^verbatim>\<open>data\<close>, no \<^verbatim>\<open>data.attributes\<close> or no
  \<^verbatim>\<open>data.relationships\<close>, \<^verbatim>\<open>ConvertLinkTypeToModel\<close> returns the BadParameter error that
  names the first absent part in this order (with the expectation \<^verbatim>\<open>not <nil>\<close>) and the
  output record is as it was: nothing has been merged.
\<close>

theorem ConvertLinkTypeToModel_nil_part:
  "(Data inp = None \<longrightarrow>
      ConvertLinkTypeToModel inp out =
        (Return (Some (BadParameter
           \<lparr>parameter = ''data'', actual = VNil, expected = Some ''not <nil>''\<rparr>)), out))
   \<and> (Data inp = Some d \<and> Attributes d = None \<longrightarrow>
      ConvertLinkTypeToModel inp out =
        (Return (Some (BadParameter
           \<lparr>parameter = ''data.attributes'', actual = VNil, expected = Some ''not <nil>''\<rparr>)), out))
   \<and> (Data inp = Some d \<and> Attributes d = Some attrs \<and> Relationships d = None \<longrightarrow>
      ConvertLinkTypeToModel inp out =
        (Return (Some (BadParameter
           \<lparr>parameter = ''data.relationships'', actual = VNil, expected = Some ''not <nil>''\<rparr>)), out))"
  by (simp add: ConvertLinkTypeToModel_def NewBadParameterError_def Expected_def)

theorem ConvertLinkTypeToModel_nil_part_examples:
  "ConvertLinkTypeToModel \<lparr>Data = None\<rparr> example_linktype =
     (Return (Some (BadParameter
        \<lparr>parameter = ''data'', actual = VNil, expected = Some ''not <nil>''\<rparr>)), example_linktype)
   \<and> ConvertLinkTypeToModel (update_of (Some 6) None None) example_linktype =
     (Return (Some (BadParameter
        \<lparr>parameter = ''data.attributes'', actual = VNil, expected = Some ''not <nil>''\<rparr>)),
      example_linktype)
   \<and> ConvertLinkTypeToModel (update_of (Some 6) (Some no_attributes) None) example_linktype =
     (Return (Some (BadParameter
        \<lparr>parameter = ''data.relationships'', actual = VNil, expected = Some ''not <nil>''\<rparr>)),
      example_linktype)"
  using ConvertLinkTypeToModel_nil_part
          [of "\<lparr>Data = None\<rparr>" example_linktype undefined undefined]
        ConvertLinkTypeToModel_nil_part
          [of "update_of (Some 6) None None" example_linktype
              "\<lparr>Data_Type = ''workitemlinktypes'', Data_ID = Some 6,
                Attributes = None, Relationships = None\<rparr>" no_attributes]
        ConvertLinkTypeToModel_nil_part
          [of "update_of (Some 6) (Some no_attributes) None" example_linktype
              "\<lparr>Data_Type = ''workitemlinktypes'', Data_ID = Some 6,
                Attributes = Some no_attributes, Relationships = None\<rparr>" no_attributes]
  by (simp add: update_of_def)

text \<open>C3\<close>

subsection \<open>What a successful merge writes\<close>

text \<open>
  C3. When \<^verbatim>\<open>ConvertLinkTypeToModel\<close> returns nil, every field of the output record holds the
  value that the update gives for it if the update gives one, and its prior value otherwise.
  The ID and the attributes are given when their pointer is not nil; a relationship
  identifier is given when the relationship and its data are there. The lifecycle
  metadata, which an update cannot give, is as before.
\<close>

theorem ConvertLinkTypeToModel_overwrites_only_what_is_given:
  assumes "ConvertLinkTypeToModel inp out = (Return None, out')"
  shows "\<exists>d attrs rel.
     Data inp = Some d \<and> Attributes d = Some attrs \<and> Relationships d = Some rel
     \<and> Lifecycle out' = Lifecycle out
     \<and> ID out' = (case Data_ID d of Some i \<Rightarrow> i | None \<Rightarrow> ID out)
     \<and> Name out' = (case Attr_Name attrs of Some n \<Rightarrow> n | None \<Rightarrow> Name out)
     \<and> Description out' =
         (case Attr_Description attrs of Some x \<Rightarrow> Some x | None \<Rightarrow> Description out)
     \<and> Version out' = (case Attr_Version attrs of Some v \<Rightarrow> v | None \<Rightarrow> Version out)
     \<and> ForwardName out' =
         (case Attr_ForwardName attrs of Some n \<Rightarrow> n | None \<Rightarrow> ForwardName out)
     \<and> ReverseName out' =
         (case Attr_ReverseName attrs of Some n \<Rightarrow> n | None \<Rightarrow> ReverseName out)
     \<and> Topology out' = (case Attr_Topology attrs of Some t \<Rightarrow> t | None \<Rightarrow> Topology out)
     \<and> LinkCategoryID out' =
         (case given_LinkCategoryID rel of Some i \<Rightarrow> i | None \<Rightarrow> LinkCategoryID out)
     \<and> SourceTypeID out' =
         (case given_SourceTypeID rel of Some i \<Rightarrow> i | None \<Rightarrow> SourceTypeID out)
     \<and> TargetTypeID out' =
         (case given_TargetTypeID rel of Some i \<Rightarrow> i | None \<Rightarrow> TargetTypeID out)
     \<and> SpaceID out' = (case given_SpaceID rel of Some i \<Rightarrow> i | None \<Rightarrow> SpaceID out)"
proof -
  from assms obtain d a r where parts:
    "Data inp = Some d" "Attributes d = Some a" "Relationships d = Some r"
    and out': "out' = out\<lparr>ID := overwrite (Data_ID d) (ID out),
       Name := overwrite (Attr_Name a) (Name out),
       Description := overwrite (map_option Some (Attr_Description a)) (Description out),
       Version := overwrite (Attr_Version a) (Version out),
       ForwardName := overwrite (Attr_ForwardName a) (ForwardName out),
       ReverseName := overwrite (Attr_ReverseName a) (ReverseName out),
       Topology := overwrite (Attr_Topology a) (Topology out),
       LinkCategoryID := overwrite (given_LinkCategoryID r) (LinkCategoryID out),
       SourceTypeID := overwrite (given_SourceTypeID r) (SourceTypeID out),
       TargetTypeID := overwrite (given_TargetTypeID r) (TargetTypeID out),
       SpaceID := overwrite (given_SpaceID r) (SpaceID out)\<rparr>"
    unfolding ConvertLinkTypeToModel_ok by blast
  have descr: "overwrite (map_option Some (Attr_Description a)) (Description out) =
      (case Attr_Description a of Some x \<Rightarrow> Some x | None \<Rightarrow> Description out)"
    by (simp add: overwrite_def split: option.split)
  show ?thesis
    using parts descr unfolding out' by (simp add: overwrite_def)
qed

theorem ConvertLinkTypeToModel_topology_tree_example:
  "ConvertLinkTypeToModel
     (update_of None (Some (no_attributes\<lparr>Attr_Topology := Some ''tree''\<rparr>)) (Some no_relationships))
     example_linktype
   = (Return None, example_linktype\<lparr>Topology := ''tree''\<rparr>)
   \<and> Name (example_linktype\<lparr>Topology := ''tree''\<rparr>) = Name example_linktype
   \<and> SpaceID (example_linktype\<lparr>Topology := ''tree''\<rparr>) = SpaceID example_linktype"
proof -
  have run: "ConvertLinkTypeToModel
     (update_of None (Some (no_attributes\<lparr>Attr_Topology := Some ''tree''\<rparr>)) (Some no_relationships))
     example_linktype
   = (Return None, example_linktype\<lparr>Topology := ''tree''\<rparr>)"
    by (simp add: run_defs example_defs)
  from ConvertLinkTypeToModel_overwrites_only_what_is_given [OF run] run
  show ?thesis
    by (auto simp: example_defs given_SpaceID_def)
qed

subsection \<open>Validation\<close>

lemma CheckValidTopology_ok:
  "CheckValidTopology t = None \<longleftrightarrow>
     t = ''network'' \<or> t = ''directed_network'' \<or> t = ''dependency'' \<or> t = ''tree''"
  by (auto simp: CheckValidTopology_def TopologyNetwork_def TopologyDirectedNetwork_def
      TopologyDependency_def TopologyTree_def)

lemma CheckValidForCreation_ok:
  "CheckValidForCreation t = None \<longleftrightarrow>
     Name t \<noteq> '''' \<and> SourceTypeID t \<noteq> uuid_Nil \<and> TargetTypeID t \<noteq> uuid_Nil
     \<and> ForwardName t \<noteq> '''' \<and> ReverseName t \<noteq> ''''
     \<and> CheckValidTopology (Topology t) = None
     \<and> LinkCategoryID t \<noteq> uuid_Nil \<and> SpaceID t \<noteq> uuid_Nil"
  by (auto simp: CheckValidForCreation_def uuid_Equal_def split: option.splits)

lemma example_linktype_valid: "CheckValidForCreation example_linktype = None"
  by (simp add: CheckValidForCreation_ok CheckValidTopology_ok example_linktype_def uuid_Nil_def)

text \<open>
  C2. \<^verbatim>\<open>CheckValidTopology\<close> is to return nil for exactly the four topology literals and,
  for every other string, a BadParameter error that identifies the offending field and
  carries the four literals as the expected values. The error it returns carries the four
  literals, but the parameter it names is \<^verbatim>\<open>topolgy\<close>, which is not the name of the field:
  here for the case variant \<^verbatim>\<open>Tree\<close>.
\<close>

theorem CheckValidTopology_names_topolgy:
  "CheckValidTopology ''Tree'' =
     Some (BadParameter
       \<lparr>parameter = ''topolgy'', actual = VString ''Tree'',
        expected = Some ''network|directed_network|dependency|tree''\<rparr>)
   \<and> ''topolgy'' \<noteq> ''topology''"
  by (simp add: CheckValidTopology_def TopologyNetwork_def TopologyDirectedNetwork_def
      TopologyDependency_def TopologyTree_def NewBadParameterError_def Expected_def)

text \<open>
  What holds of \<^verbatim>\<open>CheckValidTopology\<close>: it returns nil for exactly the four literals, and
  the error for any other string (the empty string and case variants among them) carries
  that string and the four literals joined by \<^verbatim>\<open>|\<close> as the expected value.
\<close>

theorem CheckValidTopology_accepts_the_four_literals:
  "(CheckValidTopology t = None) =
     (t = ''network'' \<or> t = ''directed_network'' \<or> t = ''dependency'' \<or> t = ''tree'')
   \<and> (CheckValidTopology t = None
        \<or> (\<exists>b. CheckValidTopology t = Some (BadParameter b)
              \<and> actual b = VString t
              \<and> expected b = Some ''network|directed_network|dependency|tree''))
   \<and> CheckValidTopology '''' \<noteq> None
   \<and> CheckValidTopology ''Network'' \<noteq> None
   \<and> CheckValidTopology ''TREE'' \<noteq> None"
proof -
  have "CheckValidTopology t = None
        \<or> (\<exists>b. CheckValidTopology t = Some (BadParameter b)
              \<and> actual b = VString t
              \<and> expected b = Some ''network|directed_network|dependency|tree'')"
    by (simp add: CheckValidTopology_def TopologyNetwork_def TopologyDirectedNetwork_def
      TopologyDependency_def TopologyTree_def NewBadParameterError_def Expected_def)
  then show ?thesis
    by (simp add: CheckValidTopology_ok)
qed

text \<open>
  C1. \<^verbatim>\<open>CheckValidForCreation\<close> is to check name, source_type_id, target_type_id,
  forward_name, reverse_name, topology, link_category_id and space_id in this order, to
  return nil exactly when all are valid, and otherwise to return one BadParameter error that
  names the first field that is not. The order and the single error hold; the names do not:
  an invalid topology is reported as \<^verbatim>\<open>topolgy\<close> (the error of \<^verbatim>\<open>CheckValidTopology\<close>,
  wrapped with a stack trace), a nil source type id as \<^verbatim>\<open>source_type_name\<close> and a nil
  target type id as \<^verbatim>\<open>target_type_name\<close>.
\<close>

theorem CheckValidForCreation_misnames_fields:
  "CheckValidForCreation (example_linktype\<lparr>Topology := ''graph''\<rparr>) =
     Some (WithStack (BadParameter
       \<lparr>parameter = ''topolgy'', actual = VString ''graph'',
        expected = Some ''network|directed_network|dependency|tree''\<rparr>))
   \<and> CheckValidForCreation (example_linktype\<lparr>SourceTypeID := uuid_Nil\<rparr>) =
     Some (BadParameter
       \<lparr>parameter = ''source_type_name'', actual = VUUID uuid_Nil, expected = None\<rparr>)
   \<and> CheckValidForCreation (example_linktype\<lparr>TargetTypeID := uuid_Nil\<rparr>) =
     Some (BadParameter
       \<lparr>parameter = ''target_type_name'', actual = VUUID uuid_Nil, expected = None\<rparr>)"
  by (simp add: CheckValidForCreation_def CheckValidTopology_def TopologyNetwork_def
      TopologyDirectedNetwork_def TopologyDependency_def TopologyTree_def
      NewBadParameterError_def Expected_def uuid_Equal_def uuid_Nil_def example_linktype_def)

text \<open>
  What holds of \<^verbatim>\<open>CheckValidForCreation\<close>: it returns nil exactly when the three names are
  not empty, the four identifiers are not nil and the topology is one of the four literals.
\<close>

theorem CheckValidForCreation_ok_iff_all_fields_valid:
  "(CheckValidForCreation t = None) =
     (Name t \<noteq> '''' \<and> SourceTypeID t \<noteq> uuid_Nil \<and> TargetTypeID t \<noteq> uuid_Nil
      \<and> ForwardName t \<noteq> '''' \<and> ReverseName t \<noteq> ''''
      \<and> (Topology t = ''network'' \<or> Topology t = ''directed_network''
           \<or> Topology t = ''dependency'' \<or> Topology t = ''tree'')
      \<and> LinkCategoryID t \<noteq> uuid_Nil \<and> SpaceID t \<noteq> uuid_Nil)"
  by (simp add: CheckValidForCreation_ok CheckValidTopology_ok)

text \<open>
  The checks fail fast, in the order of the source: the first field that is not valid
  decides the error, whatever the later fields hold. The parameters are the ones the code
  passes.
\<close>

theorem CheckValidForCreation_first_failure:
  "(Name t = '''' \<longrightarrow>
      (\<exists>e. CheckValidForCreation t = Some e \<and> parameter (Cause e) = ''name''))
   \<and> (Name t \<noteq> '''' \<and> SourceTypeID t = uuid_Nil \<longrightarrow>
      (\<exists>e. CheckValidForCreation t = Some e \<and> parameter (Cause e) = ''source_type_name''))
   \<and> (Name t \<noteq> '''' \<and> SourceTypeID t \<noteq> uuid_Nil \<and> TargetTypeID t = uuid_Nil \<longrightarrow>
      (\<exists>e. CheckValidForCreation t = Some e \<and> parameter (Cause e) = ''target_type_name''))
   \<and> (Name t \<noteq> '''' \<and> SourceTypeID t \<noteq> uuid_Nil \<and> TargetTypeID t \<noteq> uuid_Nil
        \<and> ForwardName t = '''' \<longrightarrow>
      (\<exists>e. CheckValidForCreation t = Some e \<and> parameter (Cause e) = ''forward_name''))
   \<and> (Name t \<noteq> '''' \<and> SourceTypeID t \<noteq> uuid_Nil \<and> TargetTypeID t \<noteq> uuid_Nil
        \<and> ForwardName t \<noteq> '''' \<and> ReverseName t = '''' \<longrightarrow>
      (\<exists>e. CheckValidForCreation t = Some e \<and> parameter (Cause e) = ''reverse_name''))
   \<and> (Name t \<noteq> '''' \<and> SourceTypeID t \<noteq> uuid_Nil \<and> TargetTypeID t \<noteq> uuid_Nil
        \<and> ForwardName t \<noteq> '''' \<and> ReverseName t \<noteq> ''''
        \<and> CheckValidTopology (Topology t) \<noteq> None \<longrightarrow>
      (\<exists>e. CheckValidForCreation t = Some e \<and> parameter (Cause e) = ''topolgy''))
   \<and> (Name t \<noteq> '''' \<and> SourceTypeID t \<noteq> uuid_Nil \<and> TargetTypeID t \<noteq> uuid_Nil
        \<and> ForwardName t \<noteq> '''' \<and> ReverseName t \<noteq> ''''
        \<and> CheckValidTopology (Topology t) = None \<and> LinkCategoryID t = uuid_Nil \<longrightarrow>
      (\<exists>e. CheckValidForCreation t = Some e \<and> parameter (Cause e) = ''link_category_id''))
   \<and> (Name t \<noteq> '''' \<and> SourceTypeID t \<noteq> uuid_Nil \<and> TargetTypeID t \<noteq> uuid_Nil
        \<and> ForwardName t \<noteq> '''' \<and> ReverseName t \<noteq> ''''
        \<and> CheckValidTopology (Topology t) = None \<and> LinkCategoryID t \<noteq> uuid_Nil
        \<and> SpaceID t = uuid_Nil \<longrightarrow>
      (\<exists>e. CheckValidForCreation t = Some e \<and> parameter (Cause e) = ''space_id''))"
proof -
  have top: "\<exists>err. CheckValidTopology s = Some err \<and> parameter (Cause err) = ''topolgy''"
    if "CheckValidTopology s \<noteq> None" for s
    using that by (simp add: CheckValidTopology_def NewBadParameterError_def Expected_def
        split: if_splits)
  show ?thesis
    using top [of "Topology t"]
    by (auto simp: CheckValidForCreation_def uuid_Equal_def NewBadParameterError_def)
qed

theorem CheckValidForCreation_first_failure_example:
  "\<exists>e. CheckValidForCreation
          (example_linktype\<lparr>ForwardName := '''', ReverseName := '''', SpaceID := uuid_Nil\<rparr>)
        = Some e
      \<and> parameter (Cause e) = ''forward_name''"
  using CheckValidForCreation_first_failure
    [of "example_linktype\<lparr>ForwardName := '''', ReverseName := '''', SpaceID := uuid_Nil\<rparr>"]
  by (simp add: example_linktype_def uuid_Nil_def)

subsection \<open>No validation of the merged record\<close>

text \<open>
  C4, as stated, fails: \<^verbatim>\<open>ConvertLinkTypeToModel\<close> does not call
  \<^verbatim>\<open>CheckValidForCreation\<close>. An update that gives the nil UUID as source type is merged
  into a valid record without error, and the merged record does not pass
  \<^verbatim>\<open>CheckValidForCreation\<close>; an update that gives nothing leaves a record with an empty
  reverse name as it is, without error.
\<close>

theorem ConvertLinkTypeToModel_does_not_validate:
  "CheckValidForCreation example_linktype = None
   \<and> ConvertLinkTypeToModel
       (update_of None (Some no_attributes)
          (Some (no_relationships\<lparr>SourceType := Some \<lparr>Type_Data = Some
             \<lparr>TypeData_Type = ''workitemtypes'', TypeData_ID = uuid_Nil\<rparr>\<rparr>\<rparr>)))
       example_linktype
     = (Return None, example_linktype\<lparr>SourceTypeID := uuid_Nil\<rparr>)
   \<and> CheckValidForCreation (example_linktype\<lparr>SourceTypeID := uuid_Nil\<rparr>) =
       Some (BadParameter
         \<lparr>parameter = ''source_type_name'', actual = VUUID uuid_Nil, expected = None\<rparr>)
   \<and> ConvertLinkTypeToModel (update_of None (Some no_attributes) (Some no_relationships))
       (example_linktype\<lparr>ReverseName := ''''\<rparr>)
     = (Return None, example_linktype\<lparr>ReverseName := ''''\<rparr>)
   \<and> CheckValidForCreation (example_linktype\<lparr>ReverseName := ''''\<rparr>) =
       Some (BadParameter
         \<lparr>parameter = ''reverse_name'', actual = VString '''', expected = None\<rparr>)"
proof -
  have "ConvertLinkTypeToModel
       (update_of None (Some no_attributes)
          (Some (no_relationships\<lparr>SourceType := Some \<lparr>Type_Data = Some
             \<lparr>TypeData_Type = ''workitemtypes'', TypeData_ID = uuid_Nil\<rparr>\<rparr>\<rparr>)))
       example_linktype
     = (Return None, example_linktype\<lparr>SourceTypeID := uuid_Nil\<rparr>)"
    by (simp add: run_defs example_defs)
  moreover have "CheckValidForCreation (example_linktype\<lparr>SourceTypeID := uuid_Nil\<rparr>) =
       Some (BadParameter
         \<lparr>parameter = ''source_type_name'', actual = VUUID uuid_Nil, expected = None\<rparr>)"
    by (simp add: CheckValidForCreation_def uuid_Equal_def NewBadParameterError_def
        example_linktype_def)
  moreover have "ConvertLinkTypeToModel (update_of None (Some no_attributes) (Some no_relationships))
       (example_linktype\<lparr>ReverseName := ''''\<rparr>)
     = (Return None, example_linktype\<lparr>ReverseName := ''''\<rparr>)"
    by (simp add: run_defs example_defs)
  moreover have "CheckValidForCreation (example_linktype\<lparr>ReverseName := ''''\<rparr>) =
       Some (BadParameter
         \<lparr>parameter = ''reverse_name'', actual = VString '''', expected = None\<rparr>)"
    by (simp add: CheckValidForCreation_def uuid_Equal_def uuid_Nil_def NewBadParameterError_def
        example_linktype_def)
  ultimately show ?thesis
    using example_linktype_valid by simp
qed

text \<open>
  C4, amended. \<^verbatim>\<open>ConvertLinkTypeToModel\<close> checks only what the update gives: a name, forward
  name or reverse name that is given must not be empty and a topology that is given must be
  one of the four literals; it checks neither the relationship identifiers nor the fields
  the update leaves out. So when the stored record passes \<^verbatim>\<open>CheckValidForCreation\<close> and no
  relationship identifier given by the update is nil, the record of a successful merge
  passes \<^verbatim>\<open>CheckValidForCreation\<close>.
\<close>

theorem ConvertLinkTypeToModel_keeps_valid:
  assumes valid: "CheckValidForCreation out = None"
    and ok: "ConvertLinkTypeToModel inp out = (Return None, out')"
    and rel: "Data inp = Some d" "Relationships d = Some rel"
    and ids: "given_SourceTypeID rel \<noteq> Some uuid_Nil" "given_TargetTypeID rel \<noteq> Some uuid_Nil"
      "given_LinkCategoryID rel \<noteq> Some uuid_Nil" "given_SpaceID rel \<noteq> Some uuid_Nil"
  shows "CheckValidForCreation out' = None"
proof -
  from ok rel obtain a where a: "Attributes d = Some a"
    and names: "Attr_Name a \<noteq> Some []" "Attr_ForwardName a \<noteq> Some []"
      "Attr_ReverseName a \<noteq> Some []"
    and top: "case Attr_Topology a of Some t \<Rightarrow> CheckValidTopology t = None | None \<Rightarrow> True"
    and out': "out' = out\<lparr>ID := overwrite (Data_ID d) (ID out),
       Name := overwrite (Attr_Name a) (Name out),
       Description := overwrite (map_option Some (Attr_Description a)) (Description out),
       Version := overwrite (Attr_Version a) (Version out),
       ForwardName := overwrite (Attr_ForwardName a) (ForwardName out),
       ReverseName := overwrite (Attr_ReverseName a) (ReverseName out),
       Topology := overwrite (Attr_Topology a) (Topology out),
       LinkCategoryID := overwrite (given_LinkCategoryID rel) (LinkCategoryID out),
       SourceTypeID := overwrite (given_SourceTypeID rel) (SourceTypeID out),
       TargetTypeID := overwrite (given_TargetTypeID rel) (TargetTypeID out),
       SpaceID := overwrite (given_SpaceID rel) (SpaceID out)\<rparr>"
    unfolding ConvertLinkTypeToModel_ok by auto
  have str: "overwrite g old \<noteq> []" if "g \<noteq> Some []" "old \<noteq> []" for g and old :: string
    using that by (auto simp: overwrite_def split: option.split)
  have uid: "overwrite g old \<noteq> uuid_Nil" if "g \<noteq> Some uuid_Nil" "old \<noteq> uuid_Nil"
    for g and old :: uuid
    using that by (auto simp: overwrite_def split: option.split)
  have topo: "CheckValidTopology (overwrite (Attr_Topology a) (Topology out)) = None"
    using top valid by (simp add: CheckValidForCreation_ok overwrite_def split: option.splits)
  show ?thesis
    using valid names ids topo unfolding out' CheckValidForCreation_ok
    by (simp add: str uid)
qed

theorem ConvertLinkTypeToModel_keeps_valid_example:
  "CheckValidForCreation example_linktype = None
   \<and> ConvertLinkTypeToModel
       (update_of None (Some (no_attributes\<lparr>Attr_Topology := Some ''tree''\<rparr>))
          (Some no_relationships))
       example_linktype
     = (Return None, example_linktype\<lparr>Topology := ''tree''\<rparr>)
   \<and> CheckValidForCreation (example_linktype\<lparr>Topology := ''tree''\<rparr>) = None"
proof -
  have run: "ConvertLinkTypeToModel
       (update_of None (Some (no_attributes\<lparr>Attr_Topology := Some ''tree''\<rparr>))
          (Some no_relationships))
       example_linktype
     = (Return None, example_linktype\<lparr>Topology := ''tree''\<rparr>)"
    by (simp add: run_defs example_defs)
  have d: "Data (update_of None (Some (no_attributes\<lparr>Attr_Topology := Some ''tree''\<rparr>))
                   (Some no_relationships))
      = Some \<lparr>Data_Type = ''workitemlinktypes'', Data_ID = None,
               Attributes = Some (no_attributes\<lparr>Attr_Topology := Some ''tree''\<rparr>),
               Relationships = Some no_relationships\<rparr>"
    by (simp add: update_of_def)
  have r: "Relationships \<lparr>Data_Type = ''workitemlinktypes'', Data_ID = None,
               Attributes = Some (no_attributes\<lparr>Attr_Topology := Some ''tree''\<rparr>),
               Relationships = Some no_relationships\<rparr> = Some no_relationships"
    by simp
  have ids: "given_SourceTypeID no_relationships \<noteq> Some uuid_Nil"
    "given_TargetTypeID no_relationships \<noteq> Some uuid_Nil"
    "given_LinkCategoryID no_relationships \<noteq> Some uuid_Nil"
    "given_SpaceID no_relationships \<noteq> Some uuid_Nil"
    by (simp_all add: no_relationships_def given_SourceTypeID_def given_TargetTypeID_def
        given_LinkCategoryID_def given_SpaceID_def)
  from ConvertLinkTypeToModel_keeps_valid [OF example_linktype_valid run d r ids]
    run example_linktype_valid
  show ?thesis by simp
qed

subsection \<open>The output record after an error\<close>

text \<open>
  C5, as stated, fails: the function writes into the output record as it goes. An update
  that gives an ID, a name and an empty forward name ends with the error for the forward
  name, and the ID and the name of the output record have been overwritten by then.
\<close>

theorem ConvertLinkTypeToModel_error_after_writes:
  "ConvertLinkTypeToModel
     (update_of (Some 6)
        (Some (no_attributes\<lparr>Attr_Name := Some ''Blocker'', Attr_ForwardName := Some ''''\<rparr>))
        (Some no_relationships))
     example_linktype
   = (Return (Some (BadParameter
        \<lparr>parameter = ''data.attributes.forward_name'', actual = VString '''',
         expected = None\<rparr>)),
      example_linktype\<lparr>ID := 6, Name := ''Blocker''\<rparr>)
   \<and> example_linktype\<lparr>ID := 6, Name := ''Blocker''\<rparr> \<noteq> example_linktype"
  by (simp add: run_defs example_defs)

text \<open>
  C5, amended. When \<^verbatim>\<open>ConvertLinkTypeToModel\<close> returns an error for an absent
  \<^verbatim>\<open>data\<close>, \<^verbatim>\<open>data.attributes\<close> or \<^verbatim>\<open>data.relationships\<close>, the output record is as it was
  before the call. When it returns an error for an attribute, the fields handled before that
  attribute (in the order ID, name, description, version, forward name, reverse name) hold
  the values the update gives for them, and every other field is as it was before the
  call: the topology, the relationship identifiers and the lifecycle metadata are never
  written by a call that returns an error.
\<close>

theorem ConvertLinkTypeToModel_on_error:
  assumes "ConvertLinkTypeToModel inp out = (Return (Some e), out')"
  shows "(Data inp = None \<and> out' = out)
   \<or> (\<exists>d. Data inp = Some d \<and> (Attributes d = None \<or> Relationships d = None) \<and> out' = out)
   \<or> (\<exists>d attrs rel.
        Data inp = Some d \<and> Attributes d = Some attrs \<and> Relationships d = Some rel
        \<and> out' =
          (if Attr_Name attrs = Some '''' then
             out\<lparr>ID := overwrite (Data_ID d) (ID out)\<rparr>
           else if Attr_ForwardName attrs = Some '''' then
             out\<lparr>ID := overwrite (Data_ID d) (ID out),
                  Name := overwrite (Attr_Name attrs) (Name out),
                  Description := overwrite (map_option Some (Attr_Description attrs)) (Description out),
                  Version := overwrite (Attr_Version attrs) (Version out)\<rparr>
           else if Attr_ReverseName attrs = Some '''' then
             out\<lparr>ID := overwrite (Data_ID d) (ID out),
                  Name := overwrite (Attr_Name attrs) (Name out),
                  Description := overwrite (map_option Some (Attr_Description attrs)) (Description out),
                  Version := overwrite (Attr_Version attrs) (Version out),
                  ForwardName := overwrite (Attr_ForwardName attrs) (ForwardName out)\<rparr>
           else
             out\<lparr>ID := overwrite (Data_ID d) (ID out),
                  Name := overwrite (Attr_Name attrs) (Name out),
                  Description := overwrite (map_option Some (Attr_Description attrs)) (Description out),
                  Version := overwrite (Attr_Version attrs) (Version out),
                  ForwardName := overwrite (Attr_ForwardName attrs) (ForwardName out),
                  ReverseName := overwrite (Attr_ReverseName attrs) (ReverseName out)\<rparr>))"
proof (cases "Data inp")
  case None
  with assms show ?thesis
    by (simp add: ConvertLinkTypeToModel_def)
next
  case d: (Some d)
  show ?thesis
  proof (cases "Attributes d")
    case None
    with d assms show ?thesis
      by (simp add: ConvertLinkTypeToModel_def)
  next
    case a: (Some a)
    show ?thesis
    proof (cases "Relationships d")
      case None
      with d a assms show ?thesis
        by (simp add: ConvertLinkTypeToModel_def)
    next
      case r: (Some r)
      from assms have "out' =
          (if Attr_Name a = Some '''' then
             out\<lparr>ID := overwrite (Data_ID d) (ID out)\<rparr>
           else if Attr_ForwardName a = Some '''' then
             out\<lparr>ID := overwrite (Data_ID d) (ID out),
                  Name := overwrite (Attr_Name a) (Name out),
                  Description := overwrite (map_option Some (Attr_Description a)) (Description out),
                  Version := overwrite (Attr_Version a) (Version out)\<rparr>
           else if Attr_ReverseName a = Some '''' then
             out\<lparr>ID := overwrite (Data_ID d) (ID out),
                  Name := overwrite (Attr_Name a) (Name out),
                  Description := overwrite (map_option Some (Attr_Description a)) (Description out),
                  Version := overwrite (Attr_Version a) (Version out),
                  ForwardName := overwrite (Attr_ForwardName a) (ForwardName out)\<rparr>
           else
             out\<lparr>ID := overwrite (Data_ID d) (ID out),
                  Name := overwrite (Attr_Name a) (Name out),
                  Description := overwrite (map_option Some (Attr_Description a)) (Description out),
                  Version := overwrite (Attr_Version a) (Version out),
                  ForwardName := overwrite (Attr_ForwardName a) (ForwardName out),
                  ReverseName := overwrite (Attr_ReverseName a) (ReverseName out)\<rparr>)"
        unfolding ConvertLinkTypeToModel_err [OF d a r] by auto
      with d a r show ?thesis by simp
    qed
  qed
qed

theorem ConvertLinkTypeToModel_on_error_example:
  "ConvertLinkTypeToModel
     (update_of (Some 6)
        (Some (no_attributes\<lparr>Attr_Name := Some ''Blocker'', Attr_ForwardName := Some ''''\<rparr>))
        (Some no_relationships))
     example_linktype
   = (Return (Some (BadParameter
        \<lparr>parameter = ''data.attributes.forward_name'', actual = VString '''',
         expected = None\<rparr>)),
      example_linktype\<lparr>ID := 6, Name := ''Blocker''\<rparr>)
   \<and> example_linktype\<lparr>ID := 6, Name := ''Blocker''\<rparr> =
       example_linktype
         \<lparr>ID := overwrite (Some 6) (ID example_linktype),
          Name := overwrite (Some ''Blocker'') (Name example_linktype),
          Description := overwrite (map_option Some None) (Description example_linktype),
          Version := overwrite None (Version example_linktype)\<rparr>"
proof -
  have run: "ConvertLinkTypeToModel
     (update_of (Some 6)
        (Some (no_attributes\<lparr>Attr_Name := Some ''Blocker'', Attr_ForwardName := Some ''''\<rparr>))
        (Some no_relationships))
     example_linktype
   = (Return (Some (BadParameter
        \<lparr>parameter = ''data.attributes.forward_name'', actual = VString '''',
         expected = None\<rparr>)),
      example_linktype\<lparr>ID := 6, Name := ''Blocker''\<rparr>)"
    by (simp add: run_defs example_defs)
  from ConvertLinkTypeToModel_on_error [OF run] run
  show ?thesis
    by (simp add: update_of_def no_attributes_def)
qed

subsection \<open>Empty names\<close>

text \<open>
  C8, as stated, fails: an update whose name is given and empty, and whose
  \<^verbatim>\<open>data.relationships\<close> is absent, is rejected with the error that names
  \<^verbatim>\<open>data.relationships\<close>, not the name.
\<close>

theorem ConvertLinkTypeToModel_empty_name_without_relationships:
  "Attr_Name (no_attributes\<lparr>Attr_Name := Some ''''\<rparr>) = Some ''''
   \<and> ConvertLinkTypeToModel
       (update_of None (Some (no_attributes\<lparr>Attr_Name := Some ''''\<rparr>)) None)
       example_linktype
     = (Return (Some (BadParameter
          \<lparr>parameter = ''data.relationships'', actual = VNil, expected = Some ''not <nil>''\<rparr>)),
        example_linktype)
   \<and> ''data.relationships'' \<noteq> ''data.attributes.name''"
  by (simp add: run_defs example_defs)

text \<open>
  C8, amended. An update that gives an empty name, forward name or reverse name is always
  rejected with a BadParameter error. The error names \<^verbatim>\<open>data.relationships\<close> when the
  relationships are absent, and otherwise the first of \<^verbatim>\<open>data.attributes.name\<close>,
  \<^verbatim>\<open>data.attributes.forward_name\<close> and \<^verbatim>\<open>data.attributes.reverse_name\<close> that is given and
  empty. So a record whose name, forward name and reverse name are not empty still has them
  not empty after a successful \<^verbatim>\<open>ConvertLinkTypeToModel\<close>.
\<close>

theorem ConvertLinkTypeToModel_rejects_empty_names:
  "(Data inp = Some d \<and> Attributes d = Some attrs
      \<and> (Attr_Name attrs = Some '''' \<or> Attr_ForwardName attrs = Some ''''
           \<or> Attr_ReverseName attrs = Some '''') \<longrightarrow>
      (\<exists>e out'.
         ConvertLinkTypeToModel inp out = (Return (Some (BadParameter e)), out')
         \<and> parameter e =
             (if Relationships d = None then ''data.relationships''
              else if Attr_Name attrs = Some '''' then ''data.attributes.name''
              else if Attr_ForwardName attrs = Some '''' then ''data.attributes.forward_name''
              else ''data.attributes.reverse_name'')))
   \<and> (ConvertLinkTypeToModel inp out = (Return None, out')
        \<and> Name out \<noteq> '''' \<and> ForwardName out \<noteq> '''' \<and> ReverseName out \<noteq> '''' \<longrightarrow>
      Name out' \<noteq> '''' \<and> ForwardName out' \<noteq> '''' \<and> ReverseName out' \<noteq> '''')"
proof -
  have rejects: "\<exists>e out'.
         ConvertLinkTypeToModel inp out = (Return (Some (BadParameter e)), out')
         \<and> parameter e =
             (if Relationships d = None then ''data.relationships''
              else if Attr_Name attrs = Some '''' then ''data.attributes.name''
              else if Attr_ForwardName attrs = Some '''' then ''data.attributes.forward_name''
              else ''data.attributes.reverse_name'')"
    if d: "Data inp = Some d" and a: "Attributes d = Some attrs"
      and empty: "Attr_Name attrs = Some '''' \<or> Attr_ForwardName attrs = Some ''''
           \<or> Attr_ReverseName attrs = Some ''''"
  proof (cases "Relationships d")
    case None
    with d a show ?thesis
      by (simp add: ConvertLinkTypeToModel_def NewBadParameterError_def Expected_def)
  next
    case r: (Some r)
    consider (name) "Attr_Name attrs = Some ''''"
      | (forward) "Attr_Name attrs \<noteq> Some ''''" "Attr_ForwardName attrs = Some ''''"
      | (reverse) "Attr_Name attrs \<noteq> Some ''''" "Attr_ForwardName attrs \<noteq> Some ''''"
          "Attr_ReverseName attrs = Some ''''"
      using empty by blast
    then show ?thesis
    proof cases
      case name
      then show ?thesis
        using r by (simp add: ConvertLinkTypeToModel_err [OF d a r] NewBadParameterError_def)
    next
      case forward
      then show ?thesis
        using r by (simp add: ConvertLinkTypeToModel_err [OF d a r] NewBadParameterError_def)
    next
      case reverse
      then show ?thesis
        using r by (simp add: ConvertLinkTypeToModel_err [OF d a r] NewBadParameterError_def)
    qed
  qed
  have str: "overwrite g old \<noteq> []" if "g \<noteq> Some []" "old \<noteq> []" for g and old :: string
    using that by (auto simp: overwrite_def split: option.split)
  have keeps: "Name out' \<noteq> '''' \<and> ForwardName out' \<noteq> '''' \<and> ReverseName out' \<noteq> ''''"
    if ok: "ConvertLinkTypeToModel inp out = (Return None, out')"
      and old: "Name out \<noteq> ''''" "ForwardName out \<noteq> ''''" "ReverseName out \<noteq> ''''"
  proof -
    from ok obtain d a r where parts:
      "Data inp = Some d" "Attributes d = Some a" "Relationships d = Some r"
      and names: "Attr_Name a \<noteq> Some []" "Attr_ForwardName a \<noteq> Some []"
      "Attr_ReverseName a \<noteq> Some []"
      and out': "out' = out\<lparr>ID := overwrite (Data_ID d) (ID out),
       Name := overwrite (Attr_Name a) (Name out),
       Description := overwrite (map_option Some (Attr_Description a)) (Description out),
       Version := overwrite (Attr_Version a) (Version out),
       ForwardName := overwrite (Attr_ForwardName a) (ForwardName out),
       ReverseName := overwrite (Attr_ReverseName a) (ReverseName out),
       Topology := overwrite (Attr_Topology a) (Topology out),
       LinkCategoryID := overwrite (given_LinkCategoryID r) (LinkCategoryID out),
       SourceTypeID := overwrite (given_SourceTypeID r) (SourceTypeID out),
       TargetTypeID := overwrite (given_TargetTypeID r) (TargetTypeID out),
       SpaceID := overwrite (given_SpaceID r) (SpaceID out)\<rparr>"
      unfolding ConvertLinkTypeToModel_ok by blast
    show ?thesis
      unfolding out' using names old by (simp add: str)
  qed
  from rejects keeps show ?thesis by blast
qed

theorem ConvertLinkTypeToModel_rejects_empty_names_example:
  "(\<exists>e out'.
      ConvertLinkTypeToModel
        (update_of None
           (Some (no_attributes\<lparr>Attr_Name := Some ''Blocker'', Attr_ForwardName := Some ''''\<rparr>))
           (Some no_relationships))
        example_linktype
      = (Return (Some (BadParameter e)), out')
      \<and> parameter e = ''data.attributes.forward_name'')
   \<and> ConvertLinkTypeToModel
        (update_of None (Some (no_attributes\<lparr>Attr_Name := Some ''Blocker''\<rparr>))
           (Some no_relationships))
        example_linktype
      = (Return None, example_linktype\<lparr>Name := ''Blocker''\<rparr>)
   \<and> Name (example_linktype\<lparr>Name := ''Blocker''\<rparr>) \<noteq> ''''
   \<and> ForwardName (example_linktype\<lparr>Name := ''Blocker''\<rparr>) \<noteq> ''''
   \<and> ReverseName (example_linktype\<lparr>Name := ''Blocker''\<rparr>) \<noteq> ''''"
proof -
  have run: "ConvertLinkTypeToModel
        (update_of None (Some (no_attributes\<lparr>Attr_Name := Some ''Blocker''\<rparr>))
           (Some no_relationships))
        example_linktype
      = (Return None, example_linktype\<lparr>Name := ''Blocker''\<rparr>)"
    by (simp add: run_defs example_defs)
  have old: "Name example_linktype \<noteq> ''''" "ForwardName example_linktype \<noteq> ''''"
    "ReverseName example_linktype \<noteq> ''''"
    by (simp_all add: example_linktype_def)
  have d: "Data (update_of None
           (Some (no_attributes\<lparr>Attr_Name := Some ''Blocker'', Attr_ForwardName := Some ''''\<rparr>))
           (Some no_relationships))
      = Some \<lparr>Data_Type = ''workitemlinktypes'', Data_ID = None,
          Attributes =
            Some (no_attributes\<lparr>Attr_Name := Some ''Blocker'', Attr_ForwardName := Some ''''\<rparr>),
          Relationships = Some no_relationships\<rparr>"
    by (simp add: update_of_def)
  from ConvertLinkTypeToModel_rejects_empty_names
         [of "update_of None
           (Some (no_attributes\<lparr>Attr_Name := Some ''Blocker'', Attr_ForwardName := Some ''''\<rparr>))
           (Some no_relationships)"
          "\<lparr>Data_Type = ''workitemlinktypes'', Data_ID = None,
          Attributes =
            Some (no_attributes\<lparr>Attr_Name := Some ''Blocker'', Attr_ForwardName := Some ''''\<rparr>),
          Relationships = Some no_relationships\<rparr>"
          "no_attributes\<lparr>Attr_Name := Some ''Blocker'', Attr_ForwardName := Some ''''\<rparr>"
          example_linktype example_linktype]
  have first: "\<exists>e out'.
      ConvertLinkTypeToModel
        (update_of None
           (Some (no_attributes\<lparr>Attr_Name := Some ''Blocker'', Attr_ForwardName := Some ''''\<rparr>))
           (Some no_relationships))
        example_linktype
      = (Return (Some (BadParameter e)), out')
      \<and> parameter e = ''data.attributes.forward_name''"
    using d by (simp add: no_attributes_def)
  from ConvertLinkTypeToModel_rejects_empty_names
         [of "update_of None (Some (no_attributes\<lparr>Attr_Name := Some ''Blocker''\<rparr>))
               (Some no_relationships)"
            _ _ example_linktype "example_linktype\<lparr>Name := ''Blocker''\<rparr>"]
    run old
  have "Name (example_linktype\<lparr>Name := ''Blocker''\<rparr>) \<noteq> ''''
   \<and> ForwardName (example_linktype\<lparr>Name := ''Blocker''\<rparr>) \<noteq> ''''
   \<and> ReverseName (example_linktype\<lparr>Name := ''Blocker''\<rparr>) \<noteq> ''''"
    by blast
  with first run show ?thesis by blast
qed

subsection \<open>From the model to the REST representation and back\<close>

lemma overwrite_Some: "overwrite (Some v) old = v"
  by (simp add: overwrite_def)

lemma ConvertLinkTypeFromModel_parts:
  "\<exists>d a r. Data (ConvertLinkTypeFromModel env request t) = Some d
     \<and> Attributes d = Some a \<and> Relationships d = Some r
     \<and> Data_ID d = Some (ID t)
     \<and> Attr_Name a = Some (Name t) \<and> Attr_Description a = Description t
     \<and> Attr_Version a = Some (Version t) \<and> Attr_ForwardName a = Some (ForwardName t)
     \<and> Attr_ReverseName a = Some (ReverseName t) \<and> Attr_Topology a = Some (Topology t)
     \<and> given_LinkCategoryID r = Some (LinkCategoryID t)
     \<and> given_SourceTypeID r = Some (SourceTypeID t)
     \<and> given_TargetTypeID r = Some (TargetTypeID t)
     \<and> given_SpaceID r = Some (SpaceID t) \<and> \<not> space_without_ID r"
  by (simp add: ConvertLinkTypeFromModel_def given_LinkCategoryID_def given_SourceTypeID_def
      given_TargetTypeID_def given_SpaceID_def space_without_ID_def)

text \<open>
  C10, as stated, fails: \<^verbatim>\<open>ConvertLinkTypeFromModel\<close> passes the description pointer on,
  so a link type without description yields an update without description, and the merge
  leaves the description of the output record alone. With an output record that has the
  lifecycle metadata of the link type and a description of its own, the result is not equal
  to the link type.
\<close>

theorem round_trip_keeps_a_stale_description:
  "CheckValidForCreation example_linktype = None
   \<and> Lifecycle (example_linktype\<lparr>Description := Some ''stale''\<rparr>) = Lifecycle example_linktype
   \<and> ConvertLinkTypeToModel
       (ConvertLinkTypeFromModel example_collaborators () example_linktype)
       (example_linktype\<lparr>Description := Some ''stale''\<rparr>)
     = (Return None, example_linktype\<lparr>Description := Some ''stale''\<rparr>)
   \<and> \<not> Equal (example_linktype\<lparr>Description := Some ''stale''\<rparr>)
         (WorkItemLinkTypeValue example_linktype)"
proof -
  have "ConvertLinkTypeToModel
       (ConvertLinkTypeFromModel example_collaborators () example_linktype)
       (example_linktype\<lparr>Description := Some ''stale''\<rparr>)
     = (Return None, example_linktype\<lparr>Description := Some ''stale''\<rparr>)"
    by (simp add: ConvertLinkTypeFromModel_def run_defs example_linktype_def)
  moreover have "\<not> Equal (example_linktype\<lparr>Description := Some ''stale''\<rparr>)
         (WorkItemLinkTypeValue example_linktype)"
    by (simp add: example_linktype_def Lifecycle_Equal_def uuid_Equal_def)
  ultimately show ?thesis
    using example_linktype_valid by simp
qed

text \<open>
  C10, amended. For a link type \<open>t\<close> that passes \<^verbatim>\<open>CheckValidForCreation\<close>, converting
  \<open>t\<close> with \<^verbatim>\<open>ConvertLinkTypeFromModel\<close> and merging the result with
  \<^verbatim>\<open>ConvertLinkTypeToModel\<close> into an output record that has the lifecycle metadata of \<open>t\<close>,
  and no description if \<open>t\<close> has none, returns nil and yields a record that \<^verbatim>\<open>Equal\<close>
  compares true to \<open>t\<close>.
\<close>

theorem round_trip:
  assumes valid: "CheckValidForCreation t = None"
    and lifecycle: "Lifecycle out = Lifecycle t"
    and description: "Description t = None \<longrightarrow> Description out = None"
  shows "\<exists>out'.
     ConvertLinkTypeToModel (ConvertLinkTypeFromModel env request t) out = (Return None, out')
     \<and> Equal out' (WorkItemLinkTypeValue t)"
proof -
  obtain d a r where parts: "Data (ConvertLinkTypeFromModel env request t) = Some d"
      "Attributes d = Some a" "Relationships d = Some r"
    and given: "Data_ID d = Some (ID t)"
      "Attr_Name a = Some (Name t)" "Attr_Description a = Description t"
      "Attr_Version a = Some (Version t)" "Attr_ForwardName a = Some (ForwardName t)"
      "Attr_ReverseName a = Some (ReverseName t)" "Attr_Topology a = Some (Topology t)"
      "given_LinkCategoryID r = Some (LinkCategoryID t)"
      "given_SourceTypeID r = Some (SourceTypeID t)"
      "given_TargetTypeID r = Some (TargetTypeID t)"
      "given_SpaceID r = Some (SpaceID t)" "\<not> space_without_ID r"
    using ConvertLinkTypeFromModel_parts [of env request t] by blast
  have descr: "overwrite (map_option Some (Description t)) (Description out) = Description t"
    using description by (cases "Description t") (simp_all add: overwrite_def)
  have merged: "out\<lparr>ID := overwrite (Data_ID d) (ID out),
       Name := overwrite (Attr_Name a) (Name out),
       Description := overwrite (map_option Some (Attr_Description a)) (Description out),
       Version := overwrite (Attr_Version a) (Version out),
       ForwardName := overwrite (Attr_ForwardName a) (ForwardName out),
       ReverseName := overwrite (Attr_ReverseName a) (ReverseName out),
       Topology := overwrite (Attr_Topology a) (Topology out),
       LinkCategoryID := overwrite (given_LinkCategoryID r) (LinkCategoryID out),
       SourceTypeID := overwrite (given_SourceTypeID r) (SourceTypeID out),
       TargetTypeID := overwrite (given_TargetTypeID r) (TargetTypeID out),
       SpaceID := overwrite (given_SpaceID r) (SpaceID out)\<rparr> = t"
    by (rule WorkItemLinkType.equality) (simp_all add: given descr lifecycle overwrite_Some)
  have "ConvertLinkTypeToModel (ConvertLinkTypeFromModel env request t) out = (Return None, t)"
    unfolding ConvertLinkTypeToModel_ok
    using parts given valid merged by (simp add: CheckValidForCreation_ok)
  moreover have "Equal t (WorkItemLinkTypeValue t)"
    by (simp only: Equal_eq)
  ultimately show ?thesis
    by blast
qed

theorem round_trip_example:
  "\<exists>out'.
     ConvertLinkTypeToModel
       (ConvertLinkTypeFromModel example_collaborators () example_linktype)
       (example_linktype\<lparr>ID := 6, Name := ''Related planner item'', Version := 7\<rparr>)
     = (Return None, out')
     \<and> Equal out' (WorkItemLinkTypeValue example_linktype)"
proof -
  have "Lifecycle (example_linktype\<lparr>ID := 6, Name := ''Related planner item'', Version := 7\<rparr>)
      = Lifecycle example_linktype"
    by simp
  moreover have "Description example_linktype = None \<longrightarrow>
      Description (example_linktype\<lparr>ID := 6, Name := ''Related planner item'', Version := 7\<rparr>)
        = None"
    by (simp add: example_linktype_def)
  ultimately show ?thesis
    by (rule round_trip [OF example_linktype_valid])
qed

subsection \<open>The panic of the merge\<close>

lemma set_SpaceID_panic: "set_SpaceID r s = (Panic, s') \<longleftrightarrow> space_without_ID r \<and> s' = s"
  by (auto simp: set_SpaceID_def space_without_ID_def split: option.splits)

lemma blocks_no_panic:
  "set_ID d s \<noteq> (Panic, s')" "set_Name a s \<noteq> (Panic, s')" "set_Description a s \<noteq> (Panic, s')"
  "set_Version a s \<noteq> (Panic, s')" "set_ForwardName a s \<noteq> (Panic, s')"
  "set_ReverseName a s \<noteq> (Panic, s')" "set_Topology a s \<noteq> (Panic, s')"
  "set_LinkCategoryID r s \<noteq> (Panic, s')" "set_SourceTypeID r s \<noteq> (Panic, s')"
  "set_TargetTypeID r s \<noteq> (Panic, s')"
  by (auto simp: set_ID_def set_Name_def set_Description_def set_Version_def
      set_ForwardName_def set_ReverseName_def set_Topology_def set_LinkCategoryID_def
      set_SourceTypeID_def set_TargetTypeID_def split: option.splits)

text \<open>
  \<^verbatim>\<open>ConvertLinkTypeToModel\<close> panics exactly when every check passes and the update has space
  data whose \<^verbatim>\<open>ID\<close> is nil (line 284 dereferences it); every field but the space id has
  been merged by then.
\<close>

theorem ConvertLinkTypeToModel_panics:
  "(ConvertLinkTypeToModel inp out = (Panic, out')) =
     (\<exists>d a r. Data inp = Some d \<and> Attributes d = Some a \<and> Relationships d = Some r
        \<and> Attr_Name a \<noteq> Some '''' \<and> Attr_ForwardName a \<noteq> Some ''''
        \<and> Attr_ReverseName a \<noteq> Some ''''
        \<and> (case Attr_Topology a of Some t \<Rightarrow> CheckValidTopology t = None | None \<Rightarrow> True)
        \<and> space_without_ID r
        \<and> out' = out\<lparr>ID := overwrite (Data_ID d) (ID out),
             Name := overwrite (Attr_Name a) (Name out),
             Description := overwrite (map_option Some (Attr_Description a)) (Description out),
             Version := overwrite (Attr_Version a) (Version out),
             ForwardName := overwrite (Attr_ForwardName a) (ForwardName out),
             ReverseName := overwrite (Attr_ReverseName a) (ReverseName out),
             Topology := overwrite (Attr_Topology a) (Topology out),
             LinkCategoryID := overwrite (given_LinkCategoryID r) (LinkCategoryID out),
             SourceTypeID := overwrite (given_SourceTypeID r) (SourceTypeID out),
             TargetTypeID := overwrite (given_TargetTypeID r) (TargetTypeID out)\<rparr>)"
proof (cases "Data inp")
  case None
  then show ?thesis by (simp add: ConvertLinkTypeToModel_def)
next
  case d: (Some d)
  show ?thesis
  proof (cases "Attributes d")
    case None
    with d show ?thesis by (simp add: ConvertLinkTypeToModel_def)
  next
    case a: (Some a)
    show ?thesis
    proof (cases "Relationships d")
      case None
      with d a show ?thesis by (simp add: ConvertLinkTypeToModel_def)
    next
      case r: (Some r)
      show ?thesis
        using d a r
        by (auto simp: ConvertLinkTypeToModel_def seq_panic seq_ok block_ok blocks_no_panic
            set_SpaceID_panic)
    qed
  qed
qed

end
